theory Spec2Isabelle
  imports Main
begin

section \<open>JavaScript values\<close>

text \<open>
  The values the relay handles come out of \<open>JSON.parse\<close> (the request body, the accounts
  table), out of \<open>process.env\<close> (a string or \<open>undefined\<close>) or out of a regular-expression
  match (strings).  A string is the list of its code units; a number is kept as its
  rendering by \<open>Number::toString\<close>, which is all this program can observe of it.  An
  object is the list of its own properties, the first entry of a name being the
  property of that name.
\<close>

datatype jsval =
    JUndefined
  | JNull
  | JBool bool
  | JNum string
  | JStr string
  | JArr "jsval list"
  | JObj "(string \<times> jsval) list"

text \<open>\<open>ToBoolean\<close>: what \<open>!x\<close>, \<open>x || y\<close> and \<open>x ? a : b\<close> test.\<close>

fun truthy :: "jsval \<Rightarrow> bool" where
  "truthy JUndefined = False"
| "truthy JNull = False"
| "truthy (JBool b) = b"
| "truthy (JNum r) = (r \<noteq> ''0'' \<and> r \<noteq> ''NaN'')"
| "truthy (JStr s) = (s \<noteq> [])"
| "truthy (JArr xs) = True"
| "truthy (JObj kvs) = True"

text \<open>\<open>a || b\<close>\<close>

definition js_or :: "jsval \<Rightarrow> jsval \<Rightarrow> jsval" where
  "js_or a b = (if truthy a then a else b)"

text \<open>An exception: the \<open>TypeError\<close> with its message.\<close>

datatype js_error = TypeError string

text \<open>
  \<open>ToString\<close>, as \<open>String(x)\<close>, a template literal and a computed property name apply
  it; \<open>Inl\<close> is the exception thrown.

  An object is converted by its \<open>toString\<close> and then its \<open>valueOf\<close>.  An object parsed
  from JSON inherits both from \<open>Object.prototype\<close>, and the result is
  \<open>[object Object]\<close>, unless it has a property \<open>toString\<close> of its own: that is no
  function, the inherited \<open>valueOf\<close> returns the object itself, no primitive value is
  found and a \<open>TypeError\<close> is thrown.

  An array is converted by \<open>join\<close>: its elements converted from left to right and
  joined by commas, \<open>null\<close> and \<open>undefined\<close> elements rendered empty.
\<close>

fun ToString :: "jsval \<Rightarrow> js_error + string"
  and join_elements :: "jsval list \<Rightarrow> js_error + string" where
  "ToString JUndefined = Inr ''undefined''"
| "ToString JNull = Inr ''null''"
| "ToString (JBool b) = Inr (if b then ''true'' else ''false'')"
| "ToString (JNum r) = Inr r"
| "ToString (JStr s) = Inr s"
| "ToString (JArr xs) = join_elements xs"
| "ToString (JObj kvs) =
     (if map_of kvs ''toString'' \<noteq> None
      then Inl (TypeError ''Cannot convert object to primitive value'')
      else Inr ''[object Object]'')"
| "join_elements [] = Inr []"
| "join_elements (x # xs) =
     (case (if x = JUndefined \<or> x = JNull then Inr [] else ToString x) of
        Inl err \<Rightarrow> Inl err
      | Inr s \<Rightarrow>
          (if xs = [] then Inr s
           else case join_elements xs of
                  Inl err \<Rightarrow> Inl err
                | Inr r \<Rightarrow> Inr (s @ '','' @ r)))"

text \<open>
  \<open>a === b\<close>.  Arrays and objects are equal only to themselves as references; the two
  sides compared in this program (a request field, a configuration value) are never the
  same reference.
\<close>

fun strict_equal :: "jsval \<Rightarrow> jsval \<Rightarrow> bool" where
  "strict_equal JUndefined JUndefined = True"
| "strict_equal JNull JNull = True"
| "strict_equal (JBool a) (JBool b) = (a = b)"
| "strict_equal (JNum a) (JNum b) = (a = b \<and> a \<noteq> ''NaN'')"
| "strict_equal (JStr a) (JStr b) = (a = b)"
| "strict_equal _ _ = False"

text \<open>
  Reading the property \<open>k\<close> of a value that is not \<open>null\<close> or \<open>undefined\<close>, for the names
  this program writes out (\<open>public_id\<close>, \<open>cloud_name\<close>, \<open>secure_url\<close>, \<open>resource_type\<close>,
  \<open>type\<close>, \<open>invalidate\<close>, \<open>api_key\<close>, \<open>api_secret\<close>): no built-in prototype has a member
  of one of these names, so the value is an own property or \<open>undefined\<close>.
\<close>

definition field :: "jsval \<Rightarrow> string \<Rightarrow> jsval" where
  "field v k =
     (case v of
        JObj kvs \<Rightarrow> (case map_of kvs k of Some x \<Rightarrow> x | None \<Rightarrow> JUndefined)
      | _ \<Rightarrow> JUndefined)"

text \<open>
  \<open>String.prototype.trim\<close> removes white space and line terminators at both ends.
  Among the code units below 256 these are tab, line feed, vertical tab, form feed,
  carriage return, space and no-break space.
\<close>

definition is_space :: "char \<Rightarrow> bool" where
  "is_space c = (of_char c \<in> {9, 10, 11, 12, 13, 32, 160 :: nat})"

definition trim :: "string \<Rightarrow> string" where
  "trim s = rev (dropWhile is_space (rev (dropWhile is_space s)))"

section \<open>The locator parser\<close>

text \<open>
  \<^verbatim>\<open>/res\.cloudinary\.com\/([^/]+)\/(image|video)\/([^/]+)\//\<close>

  \<open>strip_prefix p s\<close> is the rest of \<open>s\<close> after the literal \<open>p\<close>.
\<close>

fun strip_prefix :: "string \<Rightarrow> string \<Rightarrow> string option" where
  "strip_prefix [] s = Some s"
| "strip_prefix (p # ps) [] = None"
| "strip_prefix (p # ps) (c # cs) = (if p = c then strip_prefix ps cs else None)"

text \<open>
  \<open>([^/]+)\/\<close>: the group is greedy, and the slash that follows it can only be the first
  slash of the rest, so the group is the longest run without a slash, and it is not
  empty.
\<close>

definition segment :: "string \<Rightarrow> (string \<times> string) option" where
  "segment s =
     (let g = takeWhile (\<lambda>c. c \<noteq> CHR ''/'') s;
          r = dropWhile (\<lambda>c. c \<noteq> CHR ''/'') s
      in if g = [] then None
         else case r of [] \<Rightarrow> None | _ # r' \<Rightarrow> Some (g, r'))"

text \<open>\<open>(image|video)\/\<close>: the alternatives in their order.\<close>

definition image_or_video :: "string \<Rightarrow> (string \<times> string) option" where
  "image_or_video s =
     (case strip_prefix ''image/'' s of
        Some r \<Rightarrow> Some (''image'', r)
      | None \<Rightarrow>
          (case strip_prefix ''video/'' s of
             Some r \<Rightarrow> Some (''video'', r)
           | None \<Rightarrow> None))"

text \<open>The pattern matched at the start of \<open>s\<close>: the three groups.\<close>

definition match_here :: "string \<Rightarrow> (string \<times> string \<times> string) option" where
  "match_here s =
     (case strip_prefix ''res.cloudinary.com/'' s of
        None \<Rightarrow> None
      | Some s1 \<Rightarrow>
          (case segment s1 of
             None \<Rightarrow> None
           | Some (cloud, s2) \<Rightarrow>
               (case image_or_video s2 of
                  None \<Rightarrow> None
                | Some (rt, s3) \<Rightarrow>
                    (case segment s3 of
                       None \<Rightarrow> None
                     | Some (ty, s4) \<Rightarrow> Some (cloud, rt, ty)))))"

text \<open>
  \<open>String.prototype.match\<close> with a pattern without flags: the match at the leftmost
  position where there is one, \<open>null\<close> when there is none.
\<close>

fun js_match :: "string \<Rightarrow> (string \<times> string \<times> string) option" where
  "js_match [] = match_here []"
| "js_match (c # cs) =
     (case match_here (c # cs) of
        Some m \<Rightarrow> Some m
      | None \<Rightarrow> js_match cs)"

text \<open>
  \<open>parseFromUrl\<close>, the same in both files.  The result is the object the function
  returns: \<open>{}\<close> or \<open>{ cloud_name, resource_type, type }\<close>.
\<close>

definition parseFromUrl :: "jsval \<Rightarrow> jsval" where
  "parseFromUrl secureUrl =
     (let m = (case secureUrl of JStr s \<Rightarrow> js_match s | _ \<Rightarrow> None)
      in case m of
           None \<Rightarrow> JObj []
         | Some (cloud_name, resource_type, type) \<Rightarrow>
             JObj [(''cloud_name'', JStr cloud_name),
                   (''resource_type'', JStr resource_type),
                   (''type'', JStr type)])"

section \<open>Configuration\<close>

text \<open>The environment variables the program reads; \<open>None\<close> is a variable that is not set.\<close>

record env =
  CLOUDINARY_ACCOUNTS_JSON :: "string option"
  CLOUD_NAME :: "string option"
  CLOUDINARY_API_KEY :: "string option"
  CLOUDINARY_API_SECRET :: "string option"

definition env_value :: "string option \<Rightarrow> jsval" where
  "env_value x = (case x of None \<Rightarrow> JUndefined | Some s \<Rightarrow> JStr s)"


definition DEFAULT_ACCOUNT :: "env \<Rightarrow> jsval" where
  "DEFAULT_ACCOUNT e =
     JObj [(''cloud_name'', env_value (CLOUD_NAME e)),
           (''api_key'', env_value (CLOUDINARY_API_KEY e)),
           (''api_secret'', env_value (CLOUDINARY_API_SECRET e))]"

section \<open>The account resolver\<close>

text \<open>
  The table is an object (the header of \<open>index.js\<close> gives its format, a one-line JSON map
  from cloud names to key and secret); the functions below take the list of its own
  properties.

  \<open>ACCOUNTS[cloud_name]\<close> converts \<open>cloud_name\<close> to a property name and looks it up in the
  object and then in \<open>Object.prototype\<close>.  The members of \<open>Object.prototype\<close> are functions
  (and, for \<open>__proto__\<close>, \<open>Object.prototype\<close> itself) without a property \<open>api_key\<close> or
  \<open>api_secret\<close>; the program only tests such a member and reads these two properties of
  it, so that the empty object stands for it.  The conversion of \<open>cloud_name\<close> may throw.
\<close>

definition Object_prototype :: "string list" where
  "Object_prototype =
     [''constructor'', ''__defineGetter__'', ''__defineSetter__'', ''hasOwnProperty'',
      ''__lookupGetter__'', ''__lookupSetter__'', ''isPrototypeOf'',
      ''propertyIsEnumerable'', ''toString'', ''valueOf'', ''__proto__'',
      ''toLocaleString'']"

definition member :: "(string \<times> jsval) list \<Rightarrow> jsval \<Rightarrow> js_error + jsval" where
  "member obj k =
     (case ToString k of
        Inl err \<Rightarrow> Inl err
      | Inr name \<Rightarrow>
          Inr (case map_of obj name of
                 Some v \<Rightarrow> v
               | None \<Rightarrow> if name \<in> set Object_prototype then JObj [] else JUndefined))"

text \<open>
  \<open>getCredsForCloud\<close> of \<open>index.js\<close>.  \<open>ACCOUNTS[cloud_name]\<close> is written three times and
  gives the same each time; the exception of the first evaluation leaves the function.
\<close>

definition getCredsForCloud ::
  "(string \<times> jsval) list \<Rightarrow> env \<Rightarrow> jsval \<Rightarrow> js_error + jsval" where
  "getCredsForCloud accounts e cloud_name =
     (if \<not> truthy cloud_name then Inr JNull
      else case member accounts cloud_name of
        Inl err \<Rightarrow> Inl err
      | Inr entry \<Rightarrow>
          if truthy entry then
            Inr (JObj [(''cloud_name'', cloud_name),
                       (''api_key'', field entry ''api_key''),
                       (''api_secret'', field entry ''api_secret'')])
          else if truthy (field (DEFAULT_ACCOUNT e) ''cloud_name'')
                  \<and> strict_equal (field (DEFAULT_ACCOUNT e) ''cloud_name'') cloud_name then
            Inr (JObj [(''cloud_name'', cloud_name),
                       (''api_key'', field (DEFAULT_ACCOUNT e) ''api_key''),
                       (''api_secret'', field (DEFAULT_ACCOUNT e) ''api_secret'')])
          else Inr JNull)"

text \<open>\<open>getCredsForCloud\<close> of \<open>part_000\<close>, which returns \<open>DEFAULT_ACCOUNT\<close> itself.\<close>

definition getCredsForCloud_000 ::
  "(string \<times> jsval) list \<Rightarrow> env \<Rightarrow> jsval \<Rightarrow> js_error + jsval" where
  "getCredsForCloud_000 accounts e cloud_name =
     (if \<not> truthy cloud_name then Inr JNull
      else case member accounts cloud_name of
        Inl err \<Rightarrow> Inl err
      | Inr entry \<Rightarrow>
          if truthy entry then
            (let api_key = field entry ''api_key'';
                 api_secret = field entry ''api_secret''
             in Inr (JObj [(''cloud_name'', cloud_name),
                           (''api_key'', api_key),
                           (''api_secret'', api_secret)]))
          else if strict_equal (field (DEFAULT_ACCOUNT e) ''cloud_name'') cloud_name then
            Inr (DEFAULT_ACCOUNT e)
          else Inr JNull)"

section \<open>The deletion relay\<close>

text \<open>The variables that the handler binds from \<open>req.body\<close> and then assigns to.\<close>

record vars =
  public_id :: jsval
  cloud_name :: jsval
  secure_url :: jsval
  resource_type :: jsval
  type :: jsval
  invalidate :: jsval

text \<open>
  The outbound call \<open>axios.delete(endpoint, { auth: { username, password },
  data: { public_ids: [public_id], invalidate } })\<close>.
\<close>

record outbound =
  endpoint :: string
  auth_username :: jsval
  auth_password :: jsval
  data_public_ids :: "jsval list"
  data_invalidate :: bool

text \<open>
  What the \<open>catch\<close> block reads of an error: \<open>err.response.data\<close> (\<open>undefined\<close> when the
  error has no response, as \<open>err?.response?.data\<close> gives then) and \<open>err.message\<close>.  A
  rejected call is given by the two; a \<open>TypeError\<close> has no response.
\<close>

record failure =
  response_data :: jsval
  message :: jsval

definition thrown :: "js_error \<Rightarrow> failure" where
  "thrown err =
     (case err of TypeError m \<Rightarrow> \<lparr>response_data = JUndefined, message = JStr m\<rparr>)"

text \<open>
  What a request leaves behind: the status and the JSON body of the response, what
  \<open>console.error\<close> printed after its label, and the outbound calls made.
\<close>

record result =
  status :: nat
  body :: jsval
  logged :: "jsval list"
  calls :: "outbound list"

definition respond :: "nat \<Rightarrow> jsval \<Rightarrow> result" where
  "respond code b = \<lparr>status = code, body = b, logged = [], calls = []\<rparr>"

text \<open>
  The \<open>catch\<close> block, the same in both files but for the name of a variable: it logs
  the detail of the error and answers 500.  \<open>cs\<close> are the calls made before.
\<close>

definition caught :: "failure \<Rightarrow> outbound list \<Rightarrow> result" where
  "caught err cs =
     \<lparr>status = 500, body = JObj [(''error'', JStr ''Failed to delete media'')],
      logged = [js_or (response_data err) (message err)], calls = cs\<rparr>"

text \<open>
  \<open>req.body\<close> is the object that \<open>express.json()\<close> parsed from the request, given by the
  list of its properties.

  \<open>let { public_id, cloud_name, secure_url, resource_type, type, invalidate } = req.body\<close>
\<close>

definition destructure :: "(string \<times> jsval) list \<Rightarrow> vars" where
  "destructure req_body =
     \<lparr>public_id = field (JObj req_body) ''public_id'',
      cloud_name = field (JObj req_body) ''cloud_name'',
      secure_url = field (JObj req_body) ''secure_url'',
      resource_type = field (JObj req_body) ''resource_type'',
      type = field (JObj req_body) ''type'',
      invalidate = field (JObj req_body) ''invalidate''\<rparr>"

text \<open>The block that derives missing fields from \<open>secure_url\<close>.\<close>

definition derive :: "vars \<Rightarrow> vars" where
  "derive v =
     (if (\<not> truthy (cloud_name v) \<or> \<not> truthy (resource_type v) \<or> \<not> truthy (type v))
         \<and> truthy (secure_url v) then
        (let parsed = parseFromUrl (secure_url v)
         in v\<lparr>cloud_name := js_or (cloud_name v) (field parsed ''cloud_name''),
              resource_type := js_or (resource_type v) (field parsed ''resource_type''),
              type := js_or (type v) (field parsed ''type'')\<rparr>)
      else v)"

text \<open>\<open>resource_type = resource_type || "image"; type = type || "upload"\<close>\<close>

definition defaults :: "vars \<Rightarrow> vars" where
  "defaults v =
     v\<lparr>resource_type := js_or (resource_type v) (JStr ''image''),
       type := js_or (type v) (JStr ''upload'')\<rparr>"

text \<open>\<open>invalidate !== false\<close>\<close>

definition shouldInvalidate :: "vars \<Rightarrow> bool" where
  "shouldInvalidate v = (\<not> strict_equal (invalidate v) (JBool False))"

text \<open>
  \<open>getCredsForCloud(cloud_name) || (DEFAULT_ACCOUNT.cloud_name ? DEFAULT_ACCOUNT : null)\<close>,
  with the \<open>getCredsForCloud\<close> of either file as \<open>resolve\<close>.
\<close>

definition select_creds ::
  "(jsval \<Rightarrow> js_error + jsval) \<Rightarrow> env \<Rightarrow> jsval \<Rightarrow> js_error + jsval" where
  "select_creds resolve e cn =
     (case resolve cn of
        Inl err \<Rightarrow> Inl err
      | Inr creds \<Rightarrow>
          Inr (js_or creds
                (if truthy (field (DEFAULT_ACCOUNT e) ''cloud_name'') then DEFAULT_ACCOUNT e
                 else JNull)))"

text \<open>
  The test before the call, negated.  \<open>index.js\<close> writes
  \<open>!creds || !creds.api_key || !creds.api_secret || !creds.cloud_name\<close> and \<open>part_000\<close>
  \<open>!creds?.cloud_name || !creds?.api_key || !creds?.api_secret\<close>; \<open>creds\<close> is an object or
  \<open>null\<close>, and \<open>field\<close> of \<open>null\<close> is \<open>undefined\<close> as \<open>creds?.x\<close> is.
\<close>

definition usable :: "jsval \<Rightarrow> bool" where
  "usable creds =
     (truthy creds \<and> truthy (field creds ''api_key'') \<and> truthy (field creds ''api_secret'')
      \<and> truthy (field creds ''cloud_name''))"

definition credentials_error :: jsval where
  "credentials_error =
     JObj [(''error'', JStr (''No credentials for this cloud. Provide 'cloud_name' or 'secure_url' ''
        @ ''(and configure CLOUDINARY_ACCOUNTS_JSON / default envs).''))]"

definition credentials_error_000 :: jsval where
  "credentials_error_000 =
     JObj [(''error'', JStr (''Missing credentials. Provide 'cloud_name' or 'secure_url' ''
        @ ''and configure CLOUDINARY_ACCOUNTS_JSON or default envs.''))]"

text \<open>
  The call that the handler prepares once it has credentials.  The template literal of
  the endpoint converts \<open>creds.cloud_name\<close>, \<open>resource_type\<close> and \<open>type\<close> in this order,
  and each conversion may throw.
\<close>

definition request_for :: "jsval \<Rightarrow> vars \<Rightarrow> js_error + outbound" where
  "request_for creds v =
     (case ToString (field creds ''cloud_name'') of
        Inl err \<Rightarrow> Inl err
      | Inr cn \<Rightarrow>
          (case ToString (resource_type v) of
             Inl err \<Rightarrow> Inl err
           | Inr rt \<Rightarrow>
               (case ToString (type v) of
                  Inl err \<Rightarrow> Inl err
                | Inr ty \<Rightarrow>
                    Inr \<lparr>endpoint = ''https://api.cloudinary.com/v1_1/'' @ cn
                           @ ''/resources/'' @ rt @ ''/'' @ ty,
                         auth_username = field creds ''api_key'',
                         auth_password = field creds ''api_secret'',
                         data_public_ids = [public_id v],
                         data_invalidate = shouldInvalidate v\<rparr>)))"

text \<open>The call and what follows it: the remote's body relayed, or the \<open>catch\<close> block.\<close>

definition dispatch :: "(outbound \<Rightarrow> failure + jsval) \<Rightarrow> outbound \<Rightarrow> result" where
  "dispatch axios_delete c =
     (case axios_delete c of
        Inr data \<Rightarrow> \<lparr>status = 200, body = data, logged = [], calls = [c]\<rparr>
      | Inl err \<Rightarrow> caught err [c])"

text \<open>
  The handler of \<open>POST /deleteMedia\<close> in \<open>index.js\<close>.  Inside its \<open>try\<close>, three places can
  throw before the call: \<open>String(public_id)\<close>, \<open>ACCOUNTS[cloud_name]\<close> in
  \<open>getCredsForCloud\<close>, and the template literal of the endpoint.
\<close>

definition deleteMedia ::
  "(string \<times> jsval) list \<Rightarrow> env \<Rightarrow> (outbound \<Rightarrow> failure + jsval) \<Rightarrow> (string \<times> jsval) list \<Rightarrow> result"
where
  "deleteMedia accounts e axios_delete req_body =
     (let v = destructure req_body
      in if \<not> truthy (public_id v) then
           respond 400 (JObj [(''error'', JStr ''public_id is required'')])
         else
           (case ToString (public_id v) of
              Inl err \<Rightarrow> caught (thrown err) []
            | Inr s \<Rightarrow>
                (let v = v\<lparr>public_id := JStr (trim s)\<rparr>;
                     v = derive v;
                     v = defaults v
                 in case select_creds (getCredsForCloud accounts e) e (cloud_name v) of
                      Inl err \<Rightarrow> caught (thrown err) []
                    | Inr creds \<Rightarrow>
                        if \<not> usable creds then respond 400 credentials_error
                        else (case request_for creds v of
                                Inl err \<Rightarrow> caught (thrown err) []
                              | Inr c \<Rightarrow> dispatch axios_delete c))))"

text \<open>The handler of \<open>POST /deleteMedia\<close> in \<open>part_000\<close>.\<close>

definition deleteMedia_000 ::
  "(string \<times> jsval) list \<Rightarrow> env \<Rightarrow> (outbound \<Rightarrow> failure + jsval) \<Rightarrow> (string \<times> jsval) list \<Rightarrow> result"
where
  "deleteMedia_000 accounts e axios_delete req_body =
     (let v = destructure req_body
      in if \<not> truthy (public_id v) then
           respond 400 (JObj [(''error'', JStr ''public_id is required'')])
         else
           (case ToString (public_id v) of
              Inl err \<Rightarrow> caught (thrown err) []
            | Inr s \<Rightarrow>
                (let v = v\<lparr>public_id := JStr (trim s)\<rparr>;
                     v = derive v;
                     v = defaults v
                 in case select_creds (getCredsForCloud_000 accounts e) e (cloud_name v) of
                      Inl err \<Rightarrow> caught (thrown err) []
                    | Inr creds \<Rightarrow>
                        if \<not> usable creds then respond 400 credentials_error_000
                        else (case request_for creds v of
                                Inl err \<Rightarrow> caught (thrown err) []
                              | Inr c \<Rightarrow> dispatch axios_delete c))))"

text \<open>
  The variables as they stand when the handler selects the credentials, but for
  \<open>public_id\<close>, which is then the trimmed string: the two blocks neither read nor
  assign \<open>public_id\<close>.
\<close>

definition normalise :: "(string \<times> jsval) list \<Rightarrow> vars" where
  "normalise req_body = defaults (derive (destructure req_body))"

section \<open>The pattern as a language\<close>

text \<open>
  What the regular expression denotes: a string has a match when it contains the host
  and a slash, a non-empty group without a slash, a slash, \<open>image\<close> or \<open>video\<close>, a slash,
  a second non-empty group without a slash, and a slash.
\<close>

definition pattern_matches :: "string \<Rightarrow> bool" where
  "pattern_matches s \<longleftrightarrow>
     (\<exists>pre c k t rest.
        s = pre @ ''res.cloudinary.com/'' @ c @ ''/'' @ k @ ''/'' @ t @ ''/'' @ rest
        \<and> c \<noteq> [] \<and> CHR ''/'' \<notin> set c \<and> (k = ''image'' \<or> k = ''video'')
        \<and> t \<noteq> [] \<and> CHR ''/'' \<notin> set t)"

section \<open>Sample deployments\<close>

text \<open>A remote that deletes, and one that rejects the credentials.\<close>

definition remote_ok :: "outbound \<Rightarrow> failure + jsval" where
  "remote_ok c = Inr (JObj [(''partial'', JBool False)])"

definition remote_refuses :: "outbound \<Rightarrow> failure + jsval" where
  "remote_refuses c =
     Inl \<lparr>response_data = JObj [(''error'', JObj [(''message'', JStr ''Invalid credentials'')])],
          message = JStr ''Request failed with status code 401''\<rparr>"

text \<open>A single default account and no table.\<close>

definition main_env :: env where
  "main_env = \<lparr>CLOUDINARY_ACCOUNTS_JSON = None, CLOUD_NAME = Some ''main'',
                CLOUDINARY_API_KEY = Some ''K'', CLOUDINARY_API_SECRET = Some ''S''\<rparr>"



section \<open>The pattern matcher\<close>

lemma strip_prefix_Some_iff: "strip_prefix p s = Some r \<longleftrightarrow> s = p @ r"
  by (induction p s rule: strip_prefix.induct) auto

lemma run_then_slash:
  assumes "CHR ''/'' \<notin> set g"
  shows "takeWhile (\<lambda>c. c \<noteq> CHR ''/'') (g @ CHR ''/'' # r) = g"
    and "dropWhile (\<lambda>c. c \<noteq> CHR ''/'') (g @ CHR ''/'' # r) = CHR ''/'' # r"
  using assms by (induction g) auto

lemma segment_append: "g \<noteq> [] \<Longrightarrow> CHR ''/'' \<notin> set g \<Longrightarrow> segment (g @ CHR ''/'' # r) = Some (g, r)"
  by (simp add: segment_def run_then_slash)

lemma segment_SomeD:
  assumes "segment s = Some (g, r)"
  shows "g \<noteq> [] \<and> CHR ''/'' \<notin> set g \<and> s = g @ CHR ''/'' # r"
proof -
  let ?P = "\<lambda>c. c \<noteq> CHR ''/''"
  from assms have g: "g = takeWhile ?P s" and ne: "g \<noteq> []"
    by (auto simp: segment_def Let_def split: if_splits list.splits)
  from assms obtain x where d: "dropWhile ?P s = x # r"
    by (auto simp: segment_def Let_def split: if_splits list.splits)
  have "\<not> ?P (hd (dropWhile ?P s))"
    using d hd_dropWhile[of ?P s] by simp
  with d have d': "dropWhile ?P s = CHR ''/'' # r" by simp
  have "s = takeWhile ?P s @ dropWhile ?P s" by simp
  with g d' have "s = g @ CHR ''/'' # r" by simp
  moreover have "CHR ''/'' \<notin> set g" using g by (auto dest: set_takeWhileD)
  ultimately show ?thesis using ne by simp
qed

lemma segment_Some_iff:
  "segment s = Some (g, r) \<longleftrightarrow> g \<noteq> [] \<and> CHR ''/'' \<notin> set g \<and> s = g @ CHR ''/'' # r"
  using segment_SomeD segment_append by blast

lemma image_or_video_Some_iff:
  "image_or_video s = Some (k, r) \<longleftrightarrow> (k = ''image'' \<or> k = ''video'') \<and> s = k @ CHR ''/'' # r"
  by (auto simp: image_or_video_def strip_prefix_Some_iff split: option.splits)

lemma match_here_SomeD:
  assumes "match_here s = Some (c, k, t)"
  shows "\<exists>rest. s = ''res.cloudinary.com/'' @ c @ ''/'' @ k @ ''/'' @ t @ ''/'' @ rest
        \<and> c \<noteq> [] \<and> CHR ''/'' \<notin> set c \<and> (k = ''image'' \<or> k = ''video'')
        \<and> t \<noteq> [] \<and> CHR ''/'' \<notin> set t"
proof -
  from assms obtain s1 s2 s3 s4 where
    1: "strip_prefix ''res.cloudinary.com/'' s = Some s1" and
    2: "segment s1 = Some (c, s2)" and
    3: "image_or_video s2 = Some (k, s3)" and
    4: "segment s3 = Some (t, s4)"
    unfolding match_here_def by (auto split: option.splits)
  have a: "s = ''res.cloudinary.com/'' @ s1"
    using 1 strip_prefix_Some_iff by blast
  have b: "c \<noteq> [] \<and> CHR ''/'' \<notin> set c \<and> s1 = c @ CHR ''/'' # s2"
    using 2 by (rule segment_SomeD)
  have c: "(k = ''image'' \<or> k = ''video'') \<and> s2 = k @ CHR ''/'' # s3"
    using 3 image_or_video_Some_iff by blast
  have d: "t \<noteq> [] \<and> CHR ''/'' \<notin> set t \<and> s3 = t @ CHR ''/'' # s4"
    using 4 by (rule segment_SomeD)
  have "s = ''res.cloudinary.com/'' @ c @ ''/'' @ k @ ''/'' @ t @ ''/'' @ s4"
    using a b c d by simp
  then show ?thesis using b c d by blast
qed

lemma match_here_append:
  assumes "c \<noteq> []" "CHR ''/'' \<notin> set c" "k = ''image'' \<or> k = ''video''" "t \<noteq> []" "CHR ''/'' \<notin> set t"
  shows "match_here (''res.cloudinary.com/'' @ c @ ''/'' @ k @ ''/'' @ t @ ''/'' @ rest) = Some (c, k, t)"
proof -
  let ?s1 = "c @ CHR ''/'' # k @ CHR ''/'' # t @ CHR ''/'' # rest"
  have 1: "strip_prefix ''res.cloudinary.com/'' (''res.cloudinary.com/'' @ ?s1) = Some ?s1"
    using strip_prefix_Some_iff by blast
  have 2: "segment ?s1 = Some (c, k @ CHR ''/'' # t @ CHR ''/'' # rest)"
    using assms(1,2) by (rule segment_append)
  have 3: "image_or_video (k @ CHR ''/'' # t @ CHR ''/'' # rest) = Some (k, t @ CHR ''/'' # rest)"
    using assms(3) image_or_video_Some_iff by blast
  have 4: "segment (t @ CHR ''/'' # rest) = Some (t, rest)"
    using assms(4,5) by (rule segment_append)
  have "match_here (''res.cloudinary.com/'' @ ?s1) = Some (c, k, t)"
    unfolding match_here_def by (simp only: 1 2 3 4 option.case prod.case)
  then show ?thesis by simp
qed

lemma js_match_SomeD:
  "js_match s = Some m \<Longrightarrow> \<exists>pre post. s = pre @ post \<and> match_here post = Some m"
proof (induction s)
  case Nil
  then show ?case by simp
next
  case (Cons a s)
  show ?case
  proof (cases "match_here (a # s)")
    case None
    with Cons obtain pre post where "s = pre @ post" "match_here post = Some m" by auto
    then have "a # s = (a # pre) @ post \<and> match_here post = Some m" by simp
    then show ?thesis by blast
  next
    case (Some m')
    with Cons.prems have "a # s = [] @ (a # s) \<and> match_here (a # s) = Some m" by simp
    then show ?thesis by blast
  qed
qed

lemma js_match_None_iff:
  "js_match s = None \<longleftrightarrow> (\<forall>pre post. s = pre @ post \<longrightarrow> match_here post = None)"
proof (induction s)
  case Nil
  then show ?case by simp
next
  case (Cons a s)
  show ?case
  proof
    assume h: "js_match (a # s) = None"
    then have 1: "match_here (a # s) = None" and 2: "js_match s = None"
      by (auto split: option.splits)
    show "\<forall>pre post. a # s = pre @ post \<longrightarrow> match_here post = None"
    proof (intro allI impI)
      fix pre post assume e: "a # s = pre @ post"
      show "match_here post = None"
      proof (cases pre)
        case Nil with e 1 show ?thesis by simp
      next
        case (Cons b pre')
        with e have "s = pre' @ post" by simp
        with 2 Cons.IH show ?thesis by blast
      qed
    qed
  next
    assume h: "\<forall>pre post. a # s = pre @ post \<longrightarrow> match_here post = None"
    then have "match_here (a # s) = None" by (metis append_Nil)
    moreover have "\<forall>pre post. s = pre @ post \<longrightarrow> match_here post = None"
      using h by (metis append_Cons)
    ultimately show "js_match (a # s) = None" using Cons.IH by simp
  qed
qed

lemma pattern_matches_iff: "pattern_matches s \<longleftrightarrow> js_match s \<noteq> None"
proof
  assume "pattern_matches s"
  then obtain pre c k t rest where
    s: "s = pre @ ''res.cloudinary.com/'' @ c @ ''/'' @ k @ ''/'' @ t @ ''/'' @ rest" and
    g: "c \<noteq> []" "CHR ''/'' \<notin> set c" "k = ''image'' \<or> k = ''video''" "t \<noteq> []" "CHR ''/'' \<notin> set t"
    unfolding pattern_matches_def by blast
  from g have "match_here (''res.cloudinary.com/'' @ c @ ''/'' @ k @ ''/'' @ t @ ''/'' @ rest) = Some (c, k, t)"
    by (rule match_here_append)
  with s show "js_match s \<noteq> None"
    using js_match_None_iff[of s] by (metis option.distinct(1))
next
  assume "js_match s \<noteq> None"
  then obtain m where "js_match s = Some m" by blast
  then obtain pre post where p: "s = pre @ post" "match_here post = Some m"
    using js_match_SomeD by blast
  obtain c k t where m: "m = (c, k, t)" by (cases m) auto
  from match_here_SomeD[OF p(2)[unfolded m]] p(1)
  show "pattern_matches s" unfolding pattern_matches_def by blast
qed

lemma no_match_iff: "\<not> pattern_matches s \<longleftrightarrow> js_match s = None"
  using pattern_matches_iff by blast

lemma match_here_first_char: "CHR ''r'' \<noteq> c \<Longrightarrow> match_here (c # cs) = None"
  by (simp add: match_here_def)

lemma js_match_skip: "CHR ''r'' \<notin> set pre \<Longrightarrow> js_match (pre @ s) = js_match s"
  by (induction pre) (simp_all add: match_here_first_char)

lemma js_match_here: "match_here s = Some m \<Longrightarrow> js_match s = Some m"
  by (cases s) simp_all

lemma js_match_sample:
  "js_match ''https://res.cloudinary.com/mycloud/video/private/v1/a/b.mp4''
     = Some (''mycloud'', ''video'', ''private'')"
proof -
  have "match_here (''res.cloudinary.com/'' @ ''mycloud'' @ ''/'' @ ''video'' @ ''/'' @ ''private'' @ ''/'' @ ''v1/a/b.mp4'')
      = Some (''mycloud'', ''video'', ''private'')"
    by (rule match_here_append) simp_all
  then have "js_match (''res.cloudinary.com/'' @ ''mycloud'' @ ''/'' @ ''video'' @ ''/'' @ ''private'' @ ''/'' @ ''v1/a/b.mp4'')
      = Some (''mycloud'', ''video'', ''private'')"
    by (rule js_match_here)
  moreover have "js_match (''https://'' @ ''res.cloudinary.com/'' @ ''mycloud'' @ ''/'' @ ''video'' @ ''/'' @ ''private'' @ ''/'' @ ''v1/a/b.mp4'')
     = js_match (''res.cloudinary.com/'' @ ''mycloud'' @ ''/'' @ ''video'' @ ''/'' @ ''private'' @ ''/'' @ ''v1/a/b.mp4'')"
    by (rule js_match_skip) simp
  ultimately show ?thesis by simp
qed

section \<open>The resolver and the handler, case by case\<close>

lemma strict_equal_false: "strict_equal x (JBool False) \<longleftrightarrow> x = JBool False"
  by (cases x) auto

lemma strict_equal_env_value:
  "truthy cn \<Longrightarrow> strict_equal (env_value x) cn \<longleftrightarrow> (\<exists>d. x = Some d \<and> cn = JStr d)"
  by (cases x; cases cn) (auto simp: env_value_def)

lemma field_DEFAULT_ACCOUNT:
  "field (DEFAULT_ACCOUNT e) ''cloud_name'' = env_value (CLOUD_NAME e)"
  "field (DEFAULT_ACCOUNT e) ''api_key'' = env_value (CLOUDINARY_API_KEY e)"
  "field (DEFAULT_ACCOUNT e) ''api_secret'' = env_value (CLOUDINARY_API_SECRET e)"
  by (simp_all add: field_def DEFAULT_ACCOUNT_def)


lemma member_JStr:
  "member accounts (JStr t) =
     Inr (case map_of accounts t of Some v \<Rightarrow> v
          | None \<Rightarrow> if t \<in> set Object_prototype then JObj [] else JUndefined)"
  by (simp add: member_def)


lemma getCredsForCloud_falsy: "\<not> truthy cn \<Longrightarrow> getCredsForCloud accounts e cn = Inr JNull"
  by (simp add: getCredsForCloud_def)


lemma getCredsForCloud_entry:
  "truthy cn \<Longrightarrow> member accounts cn = Inr entry \<Longrightarrow> truthy entry \<Longrightarrow>
     getCredsForCloud accounts e cn =
       Inr (JObj [(''cloud_name'', cn), (''api_key'', field entry ''api_key''),
                  (''api_secret'', field entry ''api_secret'')])"
  by (simp add: getCredsForCloud_def)

lemma getCredsForCloud_no_entry:
  assumes t: "truthy cn" and m: "member accounts cn = Inr entry" and n: "\<not> truthy entry"
  shows "getCredsForCloud accounts e cn =
       Inr (if \<exists>d. CLOUD_NAME e = Some d \<and> cn = JStr d then DEFAULT_ACCOUNT e else JNull)"
proof (cases "\<exists>d. CLOUD_NAME e = Some d \<and> cn = JStr d")
  case True
  then obtain d where d: "CLOUD_NAME e = Some d" "cn = JStr d" by blast
  with t have "d \<noteq> []" by simp
  with d m n show ?thesis
    by (simp add: getCredsForCloud_def field_def env_value_def DEFAULT_ACCOUNT_def)
next
  case False
  with t have "\<not> strict_equal (env_value (CLOUD_NAME e)) cn"
    by (simp add: strict_equal_env_value)
  with t m n have "getCredsForCloud accounts e cn = Inr JNull"
    by (simp add: getCredsForCloud_def field_DEFAULT_ACCOUNT)
  with False show ?thesis by auto
qed

lemma getCredsForCloud_000_eq:
  "getCredsForCloud_000 accounts e cn = getCredsForCloud accounts e cn"
proof (cases "truthy cn")
  case False
  then show ?thesis by (simp add: getCredsForCloud_000_def getCredsForCloud_def)
next
  case True
  show ?thesis
  proof (cases "member accounts cn")
    case (Inl err)
    with True show ?thesis by (simp add: getCredsForCloud_000_def getCredsForCloud_def)
  next
    case (Inr entry)
    show ?thesis
    proof (cases "truthy entry")
      case t: True
      with True Inr show ?thesis by (simp add: getCredsForCloud_000_def getCredsForCloud_def)
    next
      case f: False
      have "getCredsForCloud_000 accounts e cn =
          Inr (if \<exists>d. CLOUD_NAME e = Some d \<and> cn = JStr d then DEFAULT_ACCOUNT e else JNull)"
        using True Inr f
        by (auto simp: getCredsForCloud_000_def field_DEFAULT_ACCOUNT strict_equal_env_value)
      then show ?thesis using getCredsForCloud_no_entry[OF True Inr f, of e] by simp
    qed
  qed
qed

lemma select_creds_000:
  "select_creds (getCredsForCloud_000 accounts e) = select_creds (getCredsForCloud accounts e)"
  by (simp add: select_creds_def fun_eq_iff getCredsForCloud_000_eq)

lemma select_creds_fallback:
  "resolve cn = Inr JNull \<Longrightarrow>
     select_creds resolve e cn =
       Inr (if truthy (field (DEFAULT_ACCOUNT e) ''cloud_name'') then DEFAULT_ACCOUNT e else JNull)"
  by (simp add: select_creds_def js_or_def)






lemma derive_public_id: "derive (v\<lparr>public_id := p\<rparr>) = (derive v)\<lparr>public_id := p\<rparr>"
  by (simp add: derive_def Let_def)

lemma defaults_public_id: "defaults (v\<lparr>public_id := p\<rparr>) = (defaults v)\<lparr>public_id := p\<rparr>"
  by (simp add: defaults_def)

lemma deleteMedia_invalid:
  "\<not> truthy (field (JObj req_body) ''public_id'') \<Longrightarrow>
     deleteMedia accounts e axios_delete req_body
       = respond 400 (JObj [(''error'', JStr ''public_id is required'')])"
  by (simp add: deleteMedia_def destructure_def Let_def)

lemma deleteMedia_000_invalid:
  "\<not> truthy (field (JObj req_body) ''public_id'') \<Longrightarrow>
     deleteMedia_000 accounts e axios_delete req_body
       = respond 400 (JObj [(''error'', JStr ''public_id is required'')])"
  by (simp add: deleteMedia_000_def destructure_def Let_def)

lemma deleteMedia_public_id_throws:
  "truthy (field (JObj req_body) ''public_id'') \<Longrightarrow>
   ToString (field (JObj req_body) ''public_id'') = Inl err \<Longrightarrow>
     deleteMedia accounts e axios_delete req_body = caught (thrown err) []"
  by (simp add: deleteMedia_def destructure_def Let_def)

lemma deleteMedia_000_public_id_throws:
  "truthy (field (JObj req_body) ''public_id'') \<Longrightarrow>
   ToString (field (JObj req_body) ''public_id'') = Inl err \<Longrightarrow>
     deleteMedia_000 accounts e axios_delete req_body = caught (thrown err) []"
  by (simp add: deleteMedia_000_def destructure_def Let_def)

lemma deleteMedia_valid:
  assumes "truthy (field (JObj req_body) ''public_id'')"
    and "ToString (field (JObj req_body) ''public_id'') = Inr s"
  shows "deleteMedia accounts e axios_delete req_body =
       (case select_creds (getCredsForCloud accounts e) e (cloud_name (normalise req_body)) of
          Inl err \<Rightarrow> caught (thrown err) []
        | Inr creds \<Rightarrow>
            if usable creds
            then (case request_for creds ((normalise req_body)\<lparr>public_id := JStr (trim s)\<rparr>) of
                    Inl err \<Rightarrow> caught (thrown err) []
                  | Inr c \<Rightarrow> dispatch axios_delete c)
            else respond 400 credentials_error)"
proof -
  have p: "public_id (destructure req_body) = field (JObj req_body) ''public_id''"
    by (simp add: destructure_def)
  show ?thesis
    unfolding deleteMedia_def Let_def p normalise_def derive_public_id defaults_public_id
    using assms by (simp split: sum.splits)
qed

lemma deleteMedia_000_valid:
  assumes "truthy (field (JObj req_body) ''public_id'')"
    and "ToString (field (JObj req_body) ''public_id'') = Inr s"
  shows "deleteMedia_000 accounts e axios_delete req_body =
       (case select_creds (getCredsForCloud accounts e) e (cloud_name (normalise req_body)) of
          Inl err \<Rightarrow> caught (thrown err) []
        | Inr creds \<Rightarrow>
            if usable creds
            then (case request_for creds ((normalise req_body)\<lparr>public_id := JStr (trim s)\<rparr>) of
                    Inl err \<Rightarrow> caught (thrown err) []
                  | Inr c \<Rightarrow> dispatch axios_delete c)
            else respond 400 credentials_error_000)"
proof -
  have p: "public_id (destructure req_body) = field (JObj req_body) ''public_id''"
    by (simp add: destructure_def)
  show ?thesis
    unfolding deleteMedia_000_def Let_def p normalise_def derive_public_id defaults_public_id
      select_creds_000
    using assms by (simp split: sum.splits)
qed

lemma normalise_cloud_name:
  "truthy (field (JObj req_body) ''cloud_name'') \<Longrightarrow>
     cloud_name (normalise req_body) = field (JObj req_body) ''cloud_name''"
  by (simp add: normalise_def defaults_def derive_def destructure_def js_or_def Let_def)

lemma normalise_defaults:
  "resource_type (normalise req_body)
     = js_or (resource_type (derive (destructure req_body))) (JStr ''image'')"
  "type (normalise req_body) = js_or (type (derive (destructure req_body))) (JStr ''upload'')"
  "invalidate (normalise req_body) = field (JObj req_body) ''invalidate''"
  by (simp_all add: normalise_def defaults_def derive_def destructure_def Let_def)

lemma shouldInvalidate_normalise:
  "shouldInvalidate ((normalise req_body)\<lparr>public_id := p\<rparr>)
     = (field (JObj req_body) ''invalidate'' \<noteq> JBool False)"
  by (simp add: shouldInvalidate_def normalise_defaults strict_equal_false)

lemma dispatch_calls: "calls (dispatch axios_delete c) = [c]"
  by (simp add: dispatch_def caught_def split: sum.splits)

lemma caught_no_calls: "calls (caught err []) \<noteq> [c]"
  by (simp add: caught_def)

lemma respond_no_calls: "calls (respond code x) \<noteq> [c]"
  by (simp add: respond_def)

lemma deleteMedia_calls:
  assumes "calls (deleteMedia accounts e axios_delete req_body) = [c]"
  shows "\<exists>s creds. truthy (field (JObj req_body) ''public_id'')
     \<and> ToString (field (JObj req_body) ''public_id'') = Inr s
     \<and> select_creds (getCredsForCloud accounts e) e (cloud_name (normalise req_body)) = Inr creds
     \<and> usable creds
     \<and> request_for creds ((normalise req_body)\<lparr>public_id := JStr (trim s)\<rparr>) = Inr c
     \<and> deleteMedia accounts e axios_delete req_body = dispatch axios_delete c"
proof -
  have v: "truthy (field (JObj req_body) ''public_id'')"
  proof (rule ccontr)
    assume "\<not> ?thesis"
    then have "deleteMedia accounts e axios_delete req_body
        = respond 400 (JObj [(''error'', JStr ''public_id is required'')])"
      by (rule deleteMedia_invalid)
    with assms respond_no_calls show False by simp
  qed
  obtain s where s: "ToString (field (JObj req_body) ''public_id'') = Inr s"
  proof (cases "ToString (field (JObj req_body) ''public_id'')")
    case (Inl err)
    from deleteMedia_public_id_throws[OF v Inl, of accounts e axios_delete] assms caught_no_calls
    show ?thesis by simp
  next
    case (Inr s)
    with that show ?thesis by blast
  qed
  note d = deleteMedia_valid[OF v s, of accounts e axios_delete]
  obtain creds where cr:
    "select_creds (getCredsForCloud accounts e) e (cloud_name (normalise req_body)) = Inr creds"
  proof (cases "select_creds (getCredsForCloud accounts e) e (cloud_name (normalise req_body))")
    case (Inl err)
    with d assms caught_no_calls show ?thesis by simp
  next
    case (Inr creds)
    with that show ?thesis by blast
  qed
  have u: "usable creds"
  proof (rule ccontr)
    assume "\<not> ?thesis"
    with d cr have "deleteMedia accounts e axios_delete req_body = respond 400 credentials_error"
      by simp
    with assms respond_no_calls show False by simp
  qed
  obtain c' where rq: "request_for creds ((normalise req_body)\<lparr>public_id := JStr (trim s)\<rparr>) = Inr c'"
  proof (cases "request_for creds ((normalise req_body)\<lparr>public_id := JStr (trim s)\<rparr>)")
    case (Inl err)
    with d cr u assms caught_no_calls show ?thesis by simp
  next
    case (Inr c')
    with that show ?thesis by blast
  qed
  have e: "deleteMedia accounts e axios_delete req_body = dispatch axios_delete c'"
    using d cr u rq by simp
  with assms have "c' = c" by (simp add: dispatch_calls)
  with v s cr u rq e show ?thesis by blast
qed

lemma deleteMedia_000_calls:
  assumes "calls (deleteMedia_000 accounts e axios_delete req_body) = [c]"
  shows "\<exists>s creds. truthy (field (JObj req_body) ''public_id'')
     \<and> ToString (field (JObj req_body) ''public_id'') = Inr s
     \<and> select_creds (getCredsForCloud accounts e) e (cloud_name (normalise req_body)) = Inr creds
     \<and> usable creds
     \<and> request_for creds ((normalise req_body)\<lparr>public_id := JStr (trim s)\<rparr>) = Inr c
     \<and> deleteMedia_000 accounts e axios_delete req_body = dispatch axios_delete c"
proof -
  have v: "truthy (field (JObj req_body) ''public_id'')"
  proof (rule ccontr)
    assume "\<not> ?thesis"
    then have "deleteMedia_000 accounts e axios_delete req_body
        = respond 400 (JObj [(''error'', JStr ''public_id is required'')])"
      by (rule deleteMedia_000_invalid)
    with assms respond_no_calls show False by simp
  qed
  obtain s where s: "ToString (field (JObj req_body) ''public_id'') = Inr s"
  proof (cases "ToString (field (JObj req_body) ''public_id'')")
    case (Inl err)
    from deleteMedia_000_public_id_throws[OF v Inl, of accounts e axios_delete] assms caught_no_calls
    show ?thesis by simp
  next
    case (Inr s)
    with that show ?thesis by blast
  qed
  note d = deleteMedia_000_valid[OF v s, of accounts e axios_delete]
  obtain creds where cr:
    "select_creds (getCredsForCloud accounts e) e (cloud_name (normalise req_body)) = Inr creds"
  proof (cases "select_creds (getCredsForCloud accounts e) e (cloud_name (normalise req_body))")
    case (Inl err)
    with d assms caught_no_calls show ?thesis by simp
  next
    case (Inr creds)
    with that show ?thesis by blast
  qed
  have u: "usable creds"
  proof (rule ccontr)
    assume "\<not> ?thesis"
    with d cr have "deleteMedia_000 accounts e axios_delete req_body = respond 400 credentials_error_000"
      by simp
    with assms respond_no_calls show False by simp
  qed
  obtain c' where rq: "request_for creds ((normalise req_body)\<lparr>public_id := JStr (trim s)\<rparr>) = Inr c'"
  proof (cases "request_for creds ((normalise req_body)\<lparr>public_id := JStr (trim s)\<rparr>)")
    case (Inl err)
    with d cr u assms caught_no_calls show ?thesis by simp
  next
    case (Inr c')
    with that show ?thesis by blast
  qed
  have e: "deleteMedia_000 accounts e axios_delete req_body = dispatch axios_delete c'"
    using d cr u rq by simp
  with assms have "c' = c" by (simp add: dispatch_calls)
  with v s cr u rq e show ?thesis by blast
qed

lemma request_for_InrD:
  assumes "request_for creds v = Inr c"
  shows "data_invalidate c = shouldInvalidate v
     \<and> (\<exists>cn rt ty. ToString (field creds ''cloud_name'') = Inr cn
          \<and> ToString (resource_type v) = Inr rt \<and> ToString (type v) = Inr ty
          \<and> endpoint c = ''https://api.cloudinary.com/v1_1/'' @ cn @ ''/resources/'' @ rt
              @ ''/'' @ ty)"
  using assms unfolding request_for_def by (auto split: sum.splits)

text \<open>
  The property lookup of the table also finds what every object inherits.  A
  \<open>cloud_name\<close> that is the name of a member of \<open>Object.prototype\<close> gets credentials
  without a key and without a secret from \<open>getCredsForCloud\<close>, so that the handler
  answers 400 although a default account is there.
\<close>

lemma inherited_member_example:
  "getCredsForCloud [] main_env (JStr ''constructor'')
     = Inr (JObj [(''cloud_name'', JStr ''constructor''), (''api_key'', JUndefined),
                  (''api_secret'', JUndefined)])
   \<and> deleteMedia [] main_env remote_ok [(''public_id'', JStr ''a/b''), (''cloud_name'', JStr ''constructor'')]
     = respond 400 credentials_error"
  by (simp add: getCredsForCloud_def member_def Object_prototype_def field_def
      deleteMedia_def destructure_def derive_def defaults_def js_or_def select_creds_def usable_def)

section \<open>Validation of the request\<close>

text \<open>
  C1 (as amended).  A request whose \<open>public_id\<close> is missing or falsy (\<open>undefined\<close>, \<open>null\<close>,
  \<open>false\<close>, \<open>0\<close>, the empty string) is answered with status 400 and the body
  \<open>{error: "public_id is required"}\<close> by both handlers, whatever the other fields, the
  configuration and the remote are; no outbound call is made.
\<close>

theorem public_id_required:
  "\<not> truthy (field (JObj req_body) ''public_id'') \<Longrightarrow>
     deleteMedia accounts e axios_delete req_body
       = respond 400 (JObj [(''error'', JStr ''public_id is required'')])
     \<and> deleteMedia_000 accounts e axios_delete req_body
       = respond 400 (JObj [(''error'', JStr ''public_id is required'')])"
  by (simp add: deleteMedia_invalid deleteMedia_000_invalid)

theorem public_id_required_witness:
  "\<not> truthy (field (JObj [(''cloud_name'', JStr ''main''), (''public_id'', JStr [])]) ''public_id'')
   \<and> deleteMedia [] main_env remote_ok [(''cloud_name'', JStr ''main''), (''public_id'', JStr [])]
       = \<lparr>status = 400, body = JObj [(''error'', JStr ''public_id is required'')],
          logged = [], calls = []\<rparr>
   \<and> deleteMedia_000 [] main_env remote_ok [(''cloud_name'', JStr ''main''), (''public_id'', JStr [])]
       = \<lparr>status = 400, body = JObj [(''error'', JStr ''public_id is required'')],
          logged = [], calls = []\<rparr>"
proof -
  have h: "\<not> truthy (field (JObj [(''cloud_name'', JStr ''main''), (''public_id'', JStr [])]) ''public_id'')"
    by (simp add: field_def)
  show ?thesis
    using h public_id_required [OF h, of "[]" main_env remote_ok]
    by (simp add: respond_def)
qed

text \<open>
  C1 as stated fails: the check comes before the trimming.  A \<open>public_id\<close> of two spaces
  is empty after trimming and is not rejected; the relay asks the remote to delete the
  asset with the empty identifier.
\<close>

theorem blank_public_id_counterexample:
  "field (JObj [(''public_id'', JStr ''  '')]) ''public_id'' = JStr ''  ''
   \<and> trim ''  '' = []
   \<and> deleteMedia [] main_env remote_ok [(''public_id'', JStr ''  '')]
       = \<lparr>status = 200, body = JObj [(''partial'', JBool False)], logged = [],
          calls = [\<lparr>endpoint = ''https://api.cloudinary.com/v1_1/main/resources/image/upload'',
                    auth_username = JStr ''K'', auth_password = JStr ''S'',
                    data_public_ids = [JStr []], data_invalidate = True\<rparr>]\<rparr>
   \<and> deleteMedia_000 [] main_env remote_ok [(''public_id'', JStr ''  '')]
       = \<lparr>status = 200, body = JObj [(''partial'', JBool False)], logged = [],
          calls = [\<lparr>endpoint = ''https://api.cloudinary.com/v1_1/main/resources/image/upload'',
                    auth_username = JStr ''K'', auth_password = JStr ''S'',
                    data_public_ids = [JStr []], data_invalidate = True\<rparr>]\<rparr>"
  by (simp add: deleteMedia_def deleteMedia_000_def destructure_def field_def trim_def is_space_def
      derive_def defaults_def js_or_def select_creds_def getCredsForCloud_def getCredsForCloud_000_def
      DEFAULT_ACCOUNT_def env_value_def main_env_def usable_def dispatch_def request_for_def
      remote_ok_def shouldInvalidate_def member_def Object_prototype_def Let_def)

section \<open>Credential resolution\<close>

text \<open>
  C2 (as amended).  For a tenant that is not the empty string: if the table has an entry
  for it and the entry is truthy, both versions of \<open>getCredsForCloud\<close> return the
  tenant with the entry's \<open>api_key\<close> and \<open>api_secret\<close>, whatever the default account is
  (the table takes precedence); if the table has no entry for it, the tenant is not the
  name of a member of \<open>Object.prototype\<close>, and \<open>CLOUD_NAME\<close> is this tenant, they return
  the default account; if the table has no entry for it, it is not such a name, and
  \<open>CLOUD_NAME\<close> is not exactly this tenant, they return \<open>null\<close>.  For the empty string,
  for \<open>null\<close> and for \<open>undefined\<close> they return \<open>null\<close>, whatever the table and the
  default account are.  The keys are compared as they are: no other key of the table
  matters.
\<close>

theorem getCredsForCloud_resolution:
  assumes "tenant \<noteq> []"
  shows "(map_of accounts tenant = Some entry \<and> truthy entry \<longrightarrow>
            getCredsForCloud accounts e (JStr tenant)
              = Inr (JObj [(''cloud_name'', JStr tenant), (''api_key'', field entry ''api_key''),
                           (''api_secret'', field entry ''api_secret'')])
          \<and> getCredsForCloud_000 accounts e (JStr tenant)
              = Inr (JObj [(''cloud_name'', JStr tenant), (''api_key'', field entry ''api_key''),
                           (''api_secret'', field entry ''api_secret'')]))
       \<and> (map_of accounts tenant = None \<and> tenant \<notin> set Object_prototype
            \<and> CLOUD_NAME e = Some tenant \<longrightarrow>
            getCredsForCloud accounts e (JStr tenant) = Inr (DEFAULT_ACCOUNT e)
          \<and> getCredsForCloud_000 accounts e (JStr tenant) = Inr (DEFAULT_ACCOUNT e))
       \<and> (map_of accounts tenant = None \<and> tenant \<notin> set Object_prototype
            \<and> CLOUD_NAME e \<noteq> Some tenant \<longrightarrow>
            getCredsForCloud accounts e (JStr tenant) = Inr JNull
          \<and> getCredsForCloud_000 accounts e (JStr tenant) = Inr JNull)
       \<and> getCredsForCloud accounts e (JStr []) = Inr JNull
       \<and> getCredsForCloud_000 accounts e (JStr []) = Inr JNull
       \<and> getCredsForCloud accounts e JNull = Inr JNull
       \<and> getCredsForCloud_000 accounts e JNull = Inr JNull
       \<and> getCredsForCloud accounts e JUndefined = Inr JNull
       \<and> getCredsForCloud_000 accounts e JUndefined = Inr JNull"
proof -
  have t: "truthy (JStr tenant)" using assms by simp
  have 1: "getCredsForCloud accounts e (JStr tenant)
              = Inr (JObj [(''cloud_name'', JStr tenant), (''api_key'', field entry ''api_key''),
                      (''api_secret'', field entry ''api_secret'')])"
    if "map_of accounts tenant = Some entry" "truthy entry"
    using that getCredsForCloud_entry[OF t, of accounts entry e] by (simp add: member_JStr)
  have n: "member accounts (JStr tenant) = Inr JUndefined"
    if "map_of accounts tenant = None" "tenant \<notin> set Object_prototype"
    using that by (simp add: member_JStr)
  have 2: "getCredsForCloud accounts e (JStr tenant) = Inr (DEFAULT_ACCOUNT e)"
    if "map_of accounts tenant = None" "tenant \<notin> set Object_prototype" "CLOUD_NAME e = Some tenant"
    using getCredsForCloud_no_entry[OF t n, of e] that by simp
  have 3: "getCredsForCloud accounts e (JStr tenant) = Inr JNull"
    if "map_of accounts tenant = None" "tenant \<notin> set Object_prototype" "CLOUD_NAME e \<noteq> Some tenant"
    using getCredsForCloud_no_entry[OF t n, of e] that by simp
  have 4: "getCredsForCloud accounts e (JStr []) = Inr JNull"
    "getCredsForCloud accounts e JNull = Inr JNull"
    "getCredsForCloud accounts e JUndefined = Inr JNull"
    by (simp_all add: getCredsForCloud_falsy)
  show ?thesis
    unfolding getCredsForCloud_000_eq using 1 2 3 4 by blast
qed

theorem getCredsForCloud_resolution_witness:
  "getCredsForCloud [(''mycloud'', JObj [(''api_key'', JStr ''KA''), (''api_secret'', JStr ''SA'')])]
       main_env (JStr ''mycloud'')
     = Inr (JObj [(''cloud_name'', JStr ''mycloud''), (''api_key'', JStr ''KA''),
                  (''api_secret'', JStr ''SA'')])
   \<and> getCredsForCloud [(''mycloud'', JObj [(''api_key'', JStr ''KA''), (''api_secret'', JStr ''SA'')])]
       main_env (JStr ''main'')
     = Inr (JObj [(''cloud_name'', JStr ''main''), (''api_key'', JStr ''K''),
                  (''api_secret'', JStr ''S'')])
   \<and> getCredsForCloud_000 [(''mycloud'', JObj [(''api_key'', JStr ''KA''), (''api_secret'', JStr ''SA'')])]
       main_env (JStr ''Main'')
     = Inr JNull"
proof -
  let ?tbl = "[(''mycloud'', JObj [(''api_key'', JStr ''KA''), (''api_secret'', JStr ''SA'')])]"
  have a: "''mycloud'' \<noteq> []" and b: "''main'' \<noteq> []" and c: "''Main'' \<noteq> []" by simp_all
  show ?thesis
    using getCredsForCloud_resolution [OF a, of ?tbl "JObj [(''api_key'', JStr ''KA''), (''api_secret'', JStr ''SA'')]" main_env]
      getCredsForCloud_resolution [OF b, of ?tbl JNull main_env]
      getCredsForCloud_resolution [OF c, of ?tbl JNull main_env]
    by (simp add: field_def main_env_def DEFAULT_ACCOUNT_def env_value_def Object_prototype_def)
qed

text \<open>
  C2 as stated fails: \<open>getCredsForCloud\<close> returns \<open>null\<close> for a falsy \<open>cloud_name\<close> before
  it looks at the table.  A table with an entry for the empty tenant gives \<open>null\<close> for
  the empty tenant.
\<close>

theorem empty_tenant_counterexample:
  "map_of [([], JObj [(''api_key'', JStr ''KA''), (''api_secret'', JStr ''SA'')])] []
     = Some (JObj [(''api_key'', JStr ''KA''), (''api_secret'', JStr ''SA'')])
   \<and> getCredsForCloud [([], JObj [(''api_key'', JStr ''KA''), (''api_secret'', JStr ''SA'')])]
        main_env (JStr []) = Inr JNull
   \<and> getCredsForCloud_000 [([], JObj [(''api_key'', JStr ''KA''), (''api_secret'', JStr ''SA'')])]
        main_env (JStr []) = Inr JNull"
  by (simp add: getCredsForCloud_def getCredsForCloud_000_def)




section \<open>Derivation and defaults\<close>

text \<open>
  C4 (as amended).  When one of \<open>cloud_name\<close>, \<open>resource_type\<close> and \<open>type\<close> is missing or
  falsy (\<open>null\<close>, \<open>false\<close>, \<open>0\<close>, the empty string) and \<open>secure_url\<close> is truthy, the
  handler parses \<open>secure_url\<close>, replaces exactly the falsy ones among the three by the
  fields of the parse result, and keeps every one that is truthy; \<open>public_id\<close>,
  \<open>secure_url\<close> and \<open>invalidate\<close> are not touched.
\<close>

theorem derive_fills_falsy_fields:
  assumes "\<not> truthy (cloud_name v) \<or> \<not> truthy (resource_type v) \<or> \<not> truthy (type v)"
    and "truthy (secure_url v)"
  shows "cloud_name (derive v)
           = (if truthy (cloud_name v) then cloud_name v
              else field (parseFromUrl (secure_url v)) ''cloud_name'')
       \<and> resource_type (derive v)
           = (if truthy (resource_type v) then resource_type v
              else field (parseFromUrl (secure_url v)) ''resource_type'')
       \<and> type (derive v)
           = (if truthy (type v) then type v
              else field (parseFromUrl (secure_url v)) ''type'')
       \<and> public_id (derive v) = public_id v
       \<and> secure_url (derive v) = secure_url v
       \<and> invalidate (derive v) = invalidate v"
proof -
  have "derive v =
      v\<lparr>cloud_name := js_or (cloud_name v) (field (parseFromUrl (secure_url v)) ''cloud_name''),
        resource_type := js_or (resource_type v) (field (parseFromUrl (secure_url v)) ''resource_type''),
        type := js_or (type v) (field (parseFromUrl (secure_url v)) ''type'')\<rparr>"
    using assms unfolding derive_def Let_def by (simp only: simp_thms if_True)
  then show ?thesis by (simp add: js_or_def)
qed

theorem derive_fills_falsy_fields_witness:
  "derive \<lparr>public_id = JStr ''a/b'', cloud_name = JUndefined,
           secure_url = JStr ''https://res.cloudinary.com/mycloud/video/private/v1/a/b.mp4'',
           resource_type = JStr ''image'', type = JUndefined, invalidate = JUndefined\<rparr>
     = \<lparr>public_id = JStr ''a/b'', cloud_name = JStr ''mycloud'',
        secure_url = JStr ''https://res.cloudinary.com/mycloud/video/private/v1/a/b.mp4'',
        resource_type = JStr ''image'', type = JStr ''private'', invalidate = JUndefined\<rparr>"
proof -
  let ?v = "\<lparr>public_id = JStr ''a/b'', cloud_name = JUndefined,
           secure_url = JStr ''https://res.cloudinary.com/mycloud/video/private/v1/a/b.mp4'',
           resource_type = JStr ''image'', type = JUndefined, invalidate = JUndefined\<rparr>"
  have 1: "\<not> truthy (cloud_name ?v) \<or> \<not> truthy (resource_type ?v) \<or> \<not> truthy (type ?v)"
    by simp
  have 2: "truthy (secure_url ?v)" by simp
  have p: "parseFromUrl (JStr ''https://res.cloudinary.com/mycloud/video/private/v1/a/b.mp4'')
     = JObj [(''cloud_name'', JStr ''mycloud''), (''resource_type'', JStr ''video''),
             (''type'', JStr ''private'')]"
    unfolding parseFromUrl_def by (simp only: jsval.case js_match_sample Let_def option.case prod.case)
  have "cloud_name (derive ?v) = JStr ''mycloud'' \<and> resource_type (derive ?v) = JStr ''image''
      \<and> type (derive ?v) = JStr ''private'' \<and> public_id (derive ?v) = JStr ''a/b''
      \<and> secure_url (derive ?v) = JStr ''https://res.cloudinary.com/mycloud/video/private/v1/a/b.mp4''
      \<and> invalidate (derive ?v) = JUndefined"
    using derive_fills_falsy_fields [OF 1 2] by (simp add: p field_def del: js_match.simps)
  then show ?thesis by (cases "derive ?v") simp
qed

text \<open>
  C4 as stated fails for a field that the request supplies with a falsy value: the
  handler tests \<open>!cloud_name\<close>, not the presence of the field.  The empty string given as
  \<open>cloud_name\<close> is replaced by the tenant of the URL.
\<close>

theorem supplied_empty_tenant_counterexample:
  "field (JObj [(''public_id'', JStr ''a/b''), (''cloud_name'', JStr []),
                (''secure_url'', JStr ''https://res.cloudinary.com/mycloud/video/private/v1/a/b.mp4'')])
      ''cloud_name'' = JStr []
   \<and> cloud_name (derive (destructure [(''public_id'', JStr ''a/b''), (''cloud_name'', JStr []),
                (''secure_url'', JStr ''https://res.cloudinary.com/mycloud/video/private/v1/a/b.mp4'')]))
      = JStr ''mycloud''"
proof -
  have p: "parseFromUrl (JStr ''https://res.cloudinary.com/mycloud/video/private/v1/a/b.mp4'')
     = JObj [(''cloud_name'', JStr ''mycloud''), (''resource_type'', JStr ''video''),
             (''type'', JStr ''private'')]"
    unfolding parseFromUrl_def by (simp only: jsval.case js_match_sample Let_def option.case prod.case)
  show ?thesis
    by (simp add: derive_def destructure_def field_def js_or_def p del: js_match.simps)
qed

text \<open>
  C5.  After the derivation, a \<open>resource_type\<close> without a truthy value (absent in
  particular) becomes \<open>"image"\<close> and such a \<open>type\<close> becomes \<open>"upload"\<close>.  The flag
  \<open>invalidate\<close> of the outbound call is true exactly when the request's \<open>invalidate\<close> is
  not the boolean \<open>false\<close>: it is true when the field is absent and for every other
  value.  The call made by either handler carries this flag, and its endpoint is made
  of the \<open>cloud_name\<close> of the credentials selected and of the normalised
  \<open>resource_type\<close> and \<open>type\<close>, each converted to a string.
\<close>

theorem defaults_and_invalidate:
  "(\<not> truthy (resource_type (derive (destructure req_body))) \<longrightarrow>
      resource_type (normalise req_body) = JStr ''image'')
   \<and> (\<not> truthy (type (derive (destructure req_body))) \<longrightarrow>
      type (normalise req_body) = JStr ''upload'')
   \<and> shouldInvalidate (normalise req_body) = (field (JObj req_body) ''invalidate'' \<noteq> JBool False)
   \<and> (calls (deleteMedia accounts e axios_delete req_body) = [c]
        \<or> calls (deleteMedia_000 accounts e axios_delete req_body) = [c] \<longrightarrow>
      data_invalidate c = (field (JObj req_body) ''invalidate'' \<noteq> JBool False)
      \<and> (\<exists>creds cn rt ty.
            select_creds (getCredsForCloud accounts e) e (cloud_name (normalise req_body))
              = Inr creds
            \<and> ToString (field creds ''cloud_name'') = Inr cn
            \<and> ToString (resource_type (normalise req_body)) = Inr rt
            \<and> ToString (type (normalise req_body)) = Inr ty
            \<and> endpoint c = ''https://api.cloudinary.com/v1_1/'' @ cn @ ''/resources/'' @ rt
                @ ''/'' @ ty))"
proof -
  have i: "shouldInvalidate (normalise req_body) = (field (JObj req_body) ''invalidate'' \<noteq> JBool False)"
    by (simp add: shouldInvalidate_def normalise_defaults strict_equal_false)
  have r: "\<not> truthy (resource_type (derive (destructure req_body))) \<longrightarrow>
      resource_type (normalise req_body) = JStr ''image''"
    by (simp add: normalise_defaults js_or_def)
  have t: "\<not> truthy (type (derive (destructure req_body))) \<longrightarrow>
      type (normalise req_body) = JStr ''upload''"
    by (simp add: normalise_defaults js_or_def)
  have k: "data_invalidate c = (field (JObj req_body) ''invalidate'' \<noteq> JBool False)
      \<and> (\<exists>creds cn rt ty.
            select_creds (getCredsForCloud accounts e) e (cloud_name (normalise req_body))
              = Inr creds
            \<and> ToString (field creds ''cloud_name'') = Inr cn
            \<and> ToString (resource_type (normalise req_body)) = Inr rt
            \<and> ToString (type (normalise req_body)) = Inr ty
            \<and> endpoint c = ''https://api.cloudinary.com/v1_1/'' @ cn @ ''/resources/'' @ rt
                @ ''/'' @ ty)"
    if "calls (deleteMedia accounts e axios_delete req_body) = [c]
        \<or> calls (deleteMedia_000 accounts e axios_delete req_body) = [c]"
  proof -
    from that obtain s creds where
      cr: "select_creds (getCredsForCloud accounts e) e (cloud_name (normalise req_body)) = Inr creds"
      and rq: "request_for creds ((normalise req_body)\<lparr>public_id := JStr (trim s)\<rparr>) = Inr c"
      using deleteMedia_calls[of accounts e axios_delete req_body c]
        deleteMedia_000_calls[of accounts e axios_delete req_body c] by blast
    from request_for_InrD[OF rq] cr show ?thesis
      by (simp add: shouldInvalidate_normalise)
  qed
  show ?thesis
    using r t i k by blast
qed

theorem defaults_and_invalidate_witness:
  "resource_type (normalise [(''public_id'', JStr ''a/b''), (''invalidate'', JStr ''false'')])
     = JStr ''image''
   \<and> type (normalise [(''public_id'', JStr ''a/b''), (''invalidate'', JStr ''false'')])
     = JStr ''upload''
   \<and> shouldInvalidate (normalise [(''public_id'', JStr ''a/b''), (''invalidate'', JStr ''false'')])
   \<and> \<not> shouldInvalidate (normalise [(''public_id'', JStr ''a/b''), (''invalidate'', JBool False)])
   \<and> calls (deleteMedia [] main_env remote_ok [(''public_id'', JStr ''a/b''), (''invalidate'', JBool False)])
     = [\<lparr>endpoint = ''https://api.cloudinary.com/v1_1/main/resources/image/upload'',
         auth_username = JStr ''K'', auth_password = JStr ''S'',
         data_public_ids = [JStr ''a/b''], data_invalidate = False\<rparr>]"
proof -
  let ?b = "[(''public_id'', JStr ''a/b''), (''invalidate'', JStr ''false'')]"
  let ?b' = "[(''public_id'', JStr ''a/b''), (''invalidate'', JBool False)]"
  let ?c = "\<lparr>endpoint = ''https://api.cloudinary.com/v1_1/main/resources/image/upload'',
         auth_username = JStr ''K'', auth_password = JStr ''S'',
         data_public_ids = [JStr ''a/b''], data_invalidate = False\<rparr>"
  have d: "\<not> truthy (resource_type (derive (destructure ?b)))" "\<not> truthy (type (derive (destructure ?b)))"
    by (simp_all add: derive_def destructure_def field_def)
  have k: "calls (deleteMedia [] main_env remote_ok ?b') = [?c]"
    by (simp add: deleteMedia_def destructure_def field_def trim_def is_space_def
      derive_def defaults_def js_or_def select_creds_def getCredsForCloud_def
      DEFAULT_ACCOUNT_def env_value_def main_env_def usable_def dispatch_def request_for_def
      remote_ok_def shouldInvalidate_def member_def Object_prototype_def Let_def)
  show ?thesis
    using d k defaults_and_invalidate [of ?b "[]" main_env remote_ok ?c]
      defaults_and_invalidate [of ?b' "[]" main_env remote_ok ?c]
    by (simp add: field_def)
qed

section \<open>The locator parser on URLs\<close>

text \<open>
  C6 (as amended).  For every URL \<open>https://res.cloudinary.com/<tenant>/image/upload/...\<close>,
  the tenant segment not empty and without a slash, \<open>parseFromUrl\<close> returns
  \<open>cloud_name = <tenant>\<close>, \<open>resource_type = "image"\<close> and \<open>type = "upload"\<close>.
\<close>

theorem parseFromUrl_cloudinary:
  assumes "tenant \<noteq> []" and "CHR ''/'' \<notin> set tenant"
  shows "parseFromUrl (JStr (''https://res.cloudinary.com/'' @ tenant @ ''/image/upload/'' @ rest))
           = JObj [(''cloud_name'', JStr tenant), (''resource_type'', JStr ''image''),
                   (''type'', JStr ''upload'')]"
proof -
  let ?m = "''res.cloudinary.com/'' @ tenant @ ''/'' @ ''image'' @ ''/'' @ ''upload'' @ ''/'' @ rest"
  have "match_here ?m = Some (tenant, ''image'', ''upload'')"
    using assms by (intro match_here_append) simp_all
  then have "js_match ?m = Some (tenant, ''image'', ''upload'')"
    by (rule js_match_here)
  moreover have "js_match (''https://'' @ ?m) = js_match ?m"
    by (rule js_match_skip) simp
  ultimately have "js_match (''https://res.cloudinary.com/'' @ tenant @ ''/image/upload/'' @ rest)
      = Some (tenant, ''image'', ''upload'')"
    by simp
  then show ?thesis by (simp add: parseFromUrl_def)
qed

theorem parseFromUrl_cloudinary_witness:
  "''demo'' \<noteq> [] \<and> CHR ''/'' \<notin> set ''demo''
   \<and> parseFromUrl (JStr ''https://res.cloudinary.com/demo/image/upload/v1/a/b.jpg'')
       = JObj [(''cloud_name'', JStr ''demo''), (''resource_type'', JStr ''image''),
               (''type'', JStr ''upload'')]"
proof -
  have h1: "''demo'' \<noteq> []" and h2: "CHR ''/'' \<notin> set ''demo''" by simp_all
  show ?thesis
    using h1 h2 parseFromUrl_cloudinary [OF h1 h2, of "''v1/a/b.jpg''"] by simp
qed

text \<open>
  C6 as stated fails: the pattern names the host.  On the URL of the specification's
  scenario, whose host is \<open>res.example.com\<close>, the parser returns the empty object.
\<close>

theorem other_host_counterexample:
  "parseFromUrl (JStr ''https://res.example.com/mycloud/image/upload/v1/a/b.jpg'') = JObj []"
  by (simp add: parseFromUrl_def match_here_def segment_def image_or_video_def)

text \<open>
  C7.  On every input on which the pattern has no match, and on every input that is
  not a string, \<open>parseFromUrl\<close> returns the empty object: its three fields are
  \<open>undefined\<close>.  It is a total function without an error branch: \<open>match\<close> is only
  called on a string.  The handler, given such a \<open>secure_url\<close>, goes on with defaults:
  \<open>resource_type\<close> and \<open>type\<close> are the request's or \<open>"image"\<close> and \<open>"upload"\<close>, and a
  \<open>cloud_name\<close> that the request does not give stays without a value.
\<close>

theorem parseFromUrl_no_match:
  assumes "case u of JStr s \<Rightarrow> \<not> pattern_matches s | _ \<Rightarrow> True"
  shows "parseFromUrl u = JObj []
     \<and> field (parseFromUrl u) ''cloud_name'' = JUndefined
     \<and> field (parseFromUrl u) ''resource_type'' = JUndefined
     \<and> field (parseFromUrl u) ''type'' = JUndefined
     \<and> (field (JObj req_body) ''secure_url'' = u \<longrightarrow>
          resource_type (normalise req_body)
            = js_or (field (JObj req_body) ''resource_type'') (JStr ''image'')
        \<and> type (normalise req_body)
            = js_or (field (JObj req_body) ''type'') (JStr ''upload'')
        \<and> (if truthy (field (JObj req_body) ''cloud_name'')
            then cloud_name (normalise req_body) = field (JObj req_body) ''cloud_name''
            else \<not> truthy (cloud_name (normalise req_body))))"
proof -
  have "js_match s = None" if "u = JStr s" for s
    using assms that by (simp add: no_match_iff)
  then have p: "parseFromUrl u = JObj []"
    by (cases u) (simp_all add: parseFromUrl_def)
  have f: "\<And>k. field (JObj []) k = JUndefined" by (simp add: field_def)
  show ?thesis
    unfolding p f
    by (auto simp: normalise_def defaults_def derive_def destructure_def p f js_or_def Let_def)
qed

theorem parseFromUrl_no_match_witness:
  "\<not> pattern_matches ''https://example.com/a.jpg''
   \<and> parseFromUrl (JStr ''https://example.com/a.jpg'') = JObj []
   \<and> resource_type (normalise [(''public_id'', JStr ''a''), (''secure_url'', JStr ''https://example.com/a.jpg'')])
       = JStr ''image''
   \<and> type (normalise [(''public_id'', JStr ''a''), (''secure_url'', JStr ''https://example.com/a.jpg'')])
       = JStr ''upload''
   \<and> cloud_name (normalise [(''public_id'', JStr ''a''), (''secure_url'', JStr ''https://example.com/a.jpg'')])
       = JUndefined"
proof -
  have m: "js_match ''https://example.com/a.jpg'' = None"
    by (simp add: match_here_def)
  have h: "case JStr ''https://example.com/a.jpg'' of JStr s \<Rightarrow> \<not> pattern_matches s | _ \<Rightarrow> True"
    by (simp only: jsval.case no_match_iff m)
  have c: "cloud_name (normalise [(''public_id'', JStr ''a''), (''secure_url'', JStr ''https://example.com/a.jpg'')])
       = JUndefined"
    by (simp add: normalise_def defaults_def derive_def destructure_def field_def js_or_def parseFromUrl_def m
        del: js_match.simps)
  show ?thesis
    using h c parseFromUrl_no_match [OF h, of "[(''public_id'', JStr ''a''), (''secure_url'', JStr ''https://example.com/a.jpg'')]"]
    by (simp add: field_def js_or_def del: js_match.simps)
qed

section \<open>Failure of the outbound call\<close>

text \<open>
  C8.  When the call that a handler makes is rejected, the response has status 500 and
  exactly the body \<open>{error: "Failed to delete media"}\<close>, which does not depend on the
  error; the error's detail (\<open>err.response.data\<close>, or \<open>err.message\<close> when that is
  missing) goes to the log.
\<close>

theorem upstream_failure:
  assumes "calls (deleteMedia accounts e axios_delete req_body) = [c]
           \<or> calls (deleteMedia_000 accounts e axios_delete req_body) = [c]"
    and "axios_delete c = Inl err"
  shows "deleteMedia accounts e axios_delete req_body
           = \<lparr>status = 500, body = JObj [(''error'', JStr ''Failed to delete media'')],
              logged = [js_or (response_data err) (message err)], calls = [c]\<rparr>
       \<and> deleteMedia_000 accounts e axios_delete req_body
           = \<lparr>status = 500, body = JObj [(''error'', JStr ''Failed to delete media'')],
              logged = [js_or (response_data err) (message err)], calls = [c]\<rparr>"
proof -
  from assms(1) obtain s creds where v: "truthy (field (JObj req_body) ''public_id'')"
    and s: "ToString (field (JObj req_body) ''public_id'') = Inr s"
    and cr: "select_creds (getCredsForCloud accounts e) e (cloud_name (normalise req_body)) = Inr creds"
    and u: "usable creds"
    and rq: "request_for creds ((normalise req_body)\<lparr>public_id := JStr (trim s)\<rparr>) = Inr c"
    using deleteMedia_calls[of accounts e axios_delete req_body c]
      deleteMedia_000_calls[of accounts e axios_delete req_body c] by blast
  have "deleteMedia accounts e axios_delete req_body = dispatch axios_delete c"
       "deleteMedia_000 accounts e axios_delete req_body = dispatch axios_delete c"
    using cr u rq by (simp_all add: deleteMedia_valid[OF v s] deleteMedia_000_valid[OF v s])
  with assms(2) show ?thesis by (simp add: dispatch_def caught_def)
qed

theorem upstream_failure_witness:
  "deleteMedia [] main_env remote_refuses [(''public_id'', JStr ''a/b'')]
     = \<lparr>status = 500, body = JObj [(''error'', JStr ''Failed to delete media'')],
        logged = [JObj [(''error'', JObj [(''message'', JStr ''Invalid credentials'')])]],
        calls = [\<lparr>endpoint = ''https://api.cloudinary.com/v1_1/main/resources/image/upload'',
                  auth_username = JStr ''K'', auth_password = JStr ''S'',
                  data_public_ids = [JStr ''a/b''], data_invalidate = True\<rparr>]\<rparr>"
proof -
  let ?c = "\<lparr>endpoint = ''https://api.cloudinary.com/v1_1/main/resources/image/upload'',
                  auth_username = JStr ''K'', auth_password = JStr ''S'',
                  data_public_ids = [JStr ''a/b''], data_invalidate = True\<rparr>"
  let ?err = "\<lparr>response_data = JObj [(''error'', JObj [(''message'', JStr ''Invalid credentials'')])],
          message = JStr ''Request failed with status code 401''\<rparr>"
  have k: "calls (deleteMedia [] main_env remote_refuses [(''public_id'', JStr ''a/b'')]) = [?c]
       \<or> calls (deleteMedia_000 [] main_env remote_refuses [(''public_id'', JStr ''a/b'')]) = [?c]"
    by (simp add: deleteMedia_def destructure_def field_def trim_def is_space_def
      derive_def defaults_def js_or_def select_creds_def getCredsForCloud_def
      DEFAULT_ACCOUNT_def env_value_def main_env_def usable_def dispatch_def request_for_def
      remote_refuses_def shouldInvalidate_def member_def Object_prototype_def caught_def Let_def)
  have f: "remote_refuses ?c = Inl ?err" by (simp add: remote_refuses_def)
  show ?thesis
    using upstream_failure [OF k f] by (simp add: js_or_def)
qed

section \<open>Construction of the table\<close>




section \<open>A tenant that matches nothing\<close>

text \<open>
  C10 (as amended).  For a request that passes validation, whose \<open>public_id\<close> and
  normalised \<open>resource_type\<close> and \<open>type\<close> are converted to strings without an exception
  (as strings and absent fields are), and that gives as \<open>cloud_name\<close> a non-empty
  string that has no entry in the table, is not the name of a member of
  \<open>Object.prototype\<close> and is not \<open>CLOUD_NAME\<close>: when the default account is usable
  (\<open>CLOUD_NAME\<close>, \<open>CLOUDINARY_API_KEY\<close> and \<open>CLOUDINARY_API_SECRET\<close> are set and not empty),
  both handlers make one call, with the default account; the endpoint has the default
  account's \<open>cloud_name\<close>, not the one of the request, and the call is authenticated
  with the default account's key and secret.
\<close>

theorem unmatched_tenant_goes_to_default:
  assumes "truthy (field (JObj req_body) ''public_id'')"
    and "ToString (field (JObj req_body) ''public_id'') = Inr s"
    and "field (JObj req_body) ''cloud_name'' = JStr tenant" and "tenant \<noteq> []"
    and "map_of accounts tenant = None" and "tenant \<notin> set Object_prototype"
    and "CLOUD_NAME e = Some d" and "d \<noteq> tenant"
    and "usable (DEFAULT_ACCOUNT e)"
    and "ToString (resource_type (normalise req_body)) = Inr rt"
    and "ToString (type (normalise req_body)) = Inr ty"
  shows "deleteMedia accounts e axios_delete req_body
           = dispatch axios_delete
               \<lparr>endpoint = ''https://api.cloudinary.com/v1_1/'' @ d @ ''/resources/'' @ rt
                   @ ''/'' @ ty,
                auth_username = env_value (CLOUDINARY_API_KEY e),
                auth_password = env_value (CLOUDINARY_API_SECRET e),
                data_public_ids = [JStr (trim s)],
                data_invalidate = (field (JObj req_body) ''invalidate'' \<noteq> JBool False)\<rparr>
       \<and> deleteMedia_000 accounts e axios_delete req_body
           = dispatch axios_delete
               \<lparr>endpoint = ''https://api.cloudinary.com/v1_1/'' @ d @ ''/resources/'' @ rt
                   @ ''/'' @ ty,
                auth_username = env_value (CLOUDINARY_API_KEY e),
                auth_password = env_value (CLOUDINARY_API_SECRET e),
                data_public_ids = [JStr (trim s)],
                data_invalidate = (field (JObj req_body) ''invalidate'' \<noteq> JBool False)\<rparr>
       \<and> calls (deleteMedia accounts e axios_delete req_body)
           = [\<lparr>endpoint = ''https://api.cloudinary.com/v1_1/'' @ d @ ''/resources/'' @ rt
                   @ ''/'' @ ty,
               auth_username = env_value (CLOUDINARY_API_KEY e),
               auth_password = env_value (CLOUDINARY_API_SECRET e),
               data_public_ids = [JStr (trim s)],
               data_invalidate = (field (JObj req_body) ''invalidate'' \<noteq> JBool False)\<rparr>]
       \<and> calls (deleteMedia_000 accounts e axios_delete req_body)
           = [\<lparr>endpoint = ''https://api.cloudinary.com/v1_1/'' @ d @ ''/resources/'' @ rt
                   @ ''/'' @ ty,
               auth_username = env_value (CLOUDINARY_API_KEY e),
               auth_password = env_value (CLOUDINARY_API_SECRET e),
               data_public_ids = [JStr (trim s)],
               data_invalidate = (field (JObj req_body) ''invalidate'' \<noteq> JBool False)\<rparr>]"
proof -
  let ?c = "\<lparr>endpoint = ''https://api.cloudinary.com/v1_1/'' @ d @ ''/resources/'' @ rt
                   @ ''/'' @ ty,
               auth_username = env_value (CLOUDINARY_API_KEY e),
               auth_password = env_value (CLOUDINARY_API_SECRET e),
               data_public_ids = [JStr (trim s)],
               data_invalidate = (field (JObj req_body) ''invalidate'' \<noteq> JBool False)\<rparr>"
  have cn: "cloud_name (normalise req_body) = JStr tenant"
    using assms(3,4) normalise_cloud_name[of req_body] by simp
  have t: "truthy (JStr tenant)" using assms(4) by simp
  have m: "member accounts (JStr tenant) = Inr JUndefined"
    using assms(5,6) by (simp add: member_JStr)
  have n: "\<not> truthy JUndefined" by simp
  have g: "getCredsForCloud accounts e (JStr tenant) = Inr JNull"
    using getCredsForCloud_no_entry[OF t m n, of e] assms(7,8) by simp
  have dflt: "truthy (field (DEFAULT_ACCOUNT e) ''cloud_name'')"
    using assms(9) by (simp add: usable_def)
  have s: "select_creds (getCredsForCloud accounts e) e (cloud_name (normalise req_body))
             = Inr (DEFAULT_ACCOUNT e)"
    unfolding cn using g dflt by (simp add: select_creds_fallback)
  have r: "request_for (DEFAULT_ACCOUNT e) ((normalise req_body)\<lparr>public_id := JStr (trim s)\<rparr>)
      = Inr ?c"
    using assms(7,10,11)
    by (simp add: request_for_def field_DEFAULT_ACCOUNT env_value_def shouldInvalidate_normalise)
  have 1: "deleteMedia accounts e axios_delete req_body = dispatch axios_delete ?c"
    using assms(9) by (simp add: deleteMedia_valid[OF assms(1,2)] s r)
  have 2: "deleteMedia_000 accounts e axios_delete req_body = dispatch axios_delete ?c"
    using assms(9) by (simp add: deleteMedia_000_valid[OF assms(1,2)] s r)
  show ?thesis
    unfolding 1 2 dispatch_calls by simp
qed

theorem unmatched_tenant_goes_to_default_witness:
  "deleteMedia [(''mycloud'', JObj [(''api_key'', JStr ''KA''), (''api_secret'', JStr ''SA'')])]
      main_env remote_ok [(''public_id'', JStr '' a/b ''), (''cloud_name'', JStr ''other'')]
    = \<lparr>status = 200, body = JObj [(''partial'', JBool False)], logged = [],
       calls = [\<lparr>endpoint = ''https://api.cloudinary.com/v1_1/main/resources/image/upload'',
                 auth_username = JStr ''K'', auth_password = JStr ''S'',
                 data_public_ids = [JStr ''a/b''], data_invalidate = True\<rparr>]\<rparr>"
proof -
  let ?b = "[(''public_id'', JStr '' a/b ''), (''cloud_name'', JStr ''other'')]"
  let ?t = "[(''mycloud'', JObj [(''api_key'', JStr ''KA''), (''api_secret'', JStr ''SA'')])]"
  have 1: "truthy (field (JObj ?b) ''public_id'')" by (simp add: field_def)
  have 2: "ToString (field (JObj ?b) ''public_id'') = Inr '' a/b ''" by (simp add: field_def)
  have 3: "field (JObj ?b) ''cloud_name'' = JStr ''other''" by (simp add: field_def)
  have 4: "''other'' \<noteq> []" by simp
  have 5: "map_of ?t ''other'' = None" by simp
  have 6: "''other'' \<notin> set Object_prototype" by (simp add: Object_prototype_def)
  have 7: "CLOUD_NAME main_env = Some ''main''" by (simp add: main_env_def)
  have 8: "''main'' \<noteq> ''other''" by simp
  have 9: "usable (DEFAULT_ACCOUNT main_env)"
    by (simp add: usable_def DEFAULT_ACCOUNT_def field_def main_env_def env_value_def)
  have 10: "ToString (resource_type (normalise ?b)) = Inr ''image''"
    by (simp add: normalise_def defaults_def derive_def destructure_def field_def js_or_def)
  have 11: "ToString (type (normalise ?b)) = Inr ''upload''"
    by (simp add: normalise_def defaults_def derive_def destructure_def field_def js_or_def)
  have tr: "trim '' a/b '' = ''a/b''" by (simp add: trim_def is_space_def)
  show ?thesis
    using unmatched_tenant_goes_to_default [OF 1 2 3 4 5 6 7 8 9 10 11, of remote_ok]
    by (simp add: dispatch_def remote_ok_def field_def main_env_def env_value_def tr)
qed

text \<open>
  C10 as stated fails when the default account has a \<open>cloud_name\<close> and no key: the
  handler selects it, finds it unusable and answers 400 without an outbound call.
\<close>

theorem keyless_default_counterexample:
  "field (JObj [(''public_id'', JStr ''a/b''), (''cloud_name'', JStr ''other'')]) ''cloud_name''
     = JStr ''other''
   \<and> map_of ([] :: (string \<times> jsval) list) ''other'' = None
   \<and> field (DEFAULT_ACCOUNT \<lparr>CLOUDINARY_ACCOUNTS_JSON = None, CLOUD_NAME = Some ''main'',
         CLOUDINARY_API_KEY = None, CLOUDINARY_API_SECRET = None\<rparr>) ''cloud_name'' = JStr ''main''
   \<and> deleteMedia [] \<lparr>CLOUDINARY_ACCOUNTS_JSON = None, CLOUD_NAME = Some ''main'',
         CLOUDINARY_API_KEY = None, CLOUDINARY_API_SECRET = None\<rparr> remote_ok
         [(''public_id'', JStr ''a/b''), (''cloud_name'', JStr ''other'')]
       = \<lparr>status = 400, body = credentials_error, logged = [], calls = []\<rparr>
   \<and> deleteMedia_000 [] \<lparr>CLOUDINARY_ACCOUNTS_JSON = None, CLOUD_NAME = Some ''main'',
         CLOUDINARY_API_KEY = None, CLOUDINARY_API_SECRET = None\<rparr> remote_ok
         [(''public_id'', JStr ''a/b''), (''cloud_name'', JStr ''other'')]
       = \<lparr>status = 400, body = credentials_error_000, logged = [], calls = []\<rparr>"
  by (simp add: deleteMedia_def deleteMedia_000_def destructure_def field_def
      derive_def defaults_def js_or_def select_creds_def getCredsForCloud_def getCredsForCloud_000_def
      DEFAULT_ACCOUNT_def env_value_def usable_def respond_def member_def Object_prototype_def Let_def)

end
